theory Spec2Isabelle
  imports Complex_Main
begin

section \<open>Floating-point values\<close>

text \<open>
  The arrays and coordinates of \<^verbatim>\<open>streamline.py\<close> are NumPy float64 values. They are
  modelled by their IEEE class: a finite value (an exact real, rounding is not modelled and
  the two signed zeros are one value), the two infinities, and NaN. The arithmetic below
  is IEEE arithmetic on these classes; NumPy does not raise on a division by zero, it
  returns an infinity or NaN.
\<close>

datatype fl = Fin real | PInf | NInf | NaN

fun isfinite :: "fl \<Rightarrow> bool" where
  "isfinite (Fin a) = True"
| "isfinite PInf = False"
| "isfinite NInf = False"
| "isfinite NaN = False"

fun isnan :: "fl \<Rightarrow> bool" where
  "isnan NaN = True"
| "isnan (Fin a) = False"
| "isnan PInf = False"
| "isnan NInf = False"

fun fneg :: "fl \<Rightarrow> fl" where
  "fneg (Fin a) = Fin (- a)"
| "fneg PInf = NInf"
| "fneg NInf = PInf"
| "fneg NaN = NaN"

fun fadd :: "fl \<Rightarrow> fl \<Rightarrow> fl" where
  "fadd (Fin a) (Fin b) = Fin (a + b)"
| "fadd (Fin a) PInf = PInf"
| "fadd (Fin a) NInf = NInf"
| "fadd PInf (Fin b) = PInf"
| "fadd NInf (Fin b) = NInf"
| "fadd PInf PInf = PInf"
| "fadd NInf NInf = NInf"
| "fadd PInf NInf = NaN"
| "fadd NInf PInf = NaN"
| "fadd NaN b = NaN"
| "fadd a NaN = NaN"

definition fsub :: "fl \<Rightarrow> fl \<Rightarrow> fl" where
  "fsub a b = fadd a (fneg b)"

definition signed_inf :: "bool \<Rightarrow> fl" where
  "signed_inf positive = (if positive then PInf else NInf)"

fun fmul :: "fl \<Rightarrow> fl \<Rightarrow> fl" where
  "fmul (Fin a) (Fin b) = Fin (a * b)"
| "fmul (Fin a) PInf = (if a = 0 then NaN else signed_inf (0 < a))"
| "fmul (Fin a) NInf = (if a = 0 then NaN else signed_inf (a < 0))"
| "fmul PInf (Fin b) = (if b = 0 then NaN else signed_inf (0 < b))"
| "fmul NInf (Fin b) = (if b = 0 then NaN else signed_inf (b < 0))"
| "fmul PInf PInf = PInf"
| "fmul NInf NInf = PInf"
| "fmul PInf NInf = NInf"
| "fmul NInf PInf = NInf"
| "fmul NaN b = NaN"
| "fmul a NaN = NaN"

fun fdiv :: "fl \<Rightarrow> fl \<Rightarrow> fl" where
  "fdiv (Fin a) (Fin b) =
     (if b = 0 then (if a = 0 then NaN else signed_inf (0 < a)) else Fin (a / b))"
| "fdiv (Fin a) PInf = Fin 0"
| "fdiv (Fin a) NInf = Fin 0"
| "fdiv PInf (Fin b) = signed_inf (0 \<le> b)"
| "fdiv NInf (Fin b) = signed_inf (b < 0)"
| "fdiv PInf PInf = NaN"
| "fdiv NInf NInf = NaN"
| "fdiv PInf NInf = NaN"
| "fdiv NInf PInf = NaN"
| "fdiv NaN b = NaN"
| "fdiv a NaN = NaN"

fun fsqrt :: "fl \<Rightarrow> fl" where
  "fsqrt (Fin a) = (if a < 0 then NaN else Fin (sqrt a))"
| "fsqrt PInf = PInf"
| "fsqrt NInf = NaN"
| "fsqrt NaN = NaN"

text \<open>The comparison \<^verbatim>\<open><\<close>: false whenever an operand is NaN.\<close>

fun fless :: "fl \<Rightarrow> fl \<Rightarrow> bool" where
  "fless (Fin a) (Fin b) = (a < b)"
| "fless (Fin a) PInf = True"
| "fless NInf (Fin b) = True"
| "fless NInf PInf = True"
| "fless a b = False"

section \<open>Errors and the types of the library entry points\<close>

datatype error = IndexError | ValueError | RuntimeError

definition and_then :: "error + 'a \<Rightarrow> ('a \<Rightarrow> error + 'b) \<Rightarrow> error + 'b" where
  "and_then r k = (case r of Inl e \<Rightarrow> Inl e | Inr v \<Rightarrow> k v)"

text \<open>A point is the pair \<open>(x, y)\<close>; an interpolator is called with the pair \<open>(y, x)\<close>.\<close>

type_synonym point = "fl \<times> fl"
type_synonym interp = "fl \<times> fl \<Rightarrow> fl"
type_synonym array2 = "fl list list"

text \<open>
  \<^verbatim>\<open>solve_ivp(fun, t_span, y0, method=..., t_eval=...)\<close> is SciPy's; it is a parameter
  of the model. Its result is the list of the columns of \<^verbatim>\<open>sol.y\<close>, one state per
  sampled time, so that \<^verbatim>\<open>np.column_stack((sol.y[0], sol.y[1]))\<close> is that list.
\<close>

type_synonym ode_fun = "fl \<Rightarrow> point \<Rightarrow> point"
type_synonym solver = "ode_fun \<Rightarrow> fl \<times> fl \<Rightarrow> point \<Rightarrow> string \<Rightarrow> fl list \<Rightarrow> error + point list"
type_synonym rgi = "fl list \<times> fl list \<Rightarrow> array2 \<Rightarrow> error + interp"

section \<open>The velocity function handed to the solver\<close>

text \<open>
  \<^verbatim>\<open>
  def velocity_field(t, xy):
      x, y = xy
      uv = np.array([U_interp((y, x))/normalizer((y,x)), V_interp((y, x))/normalizer((y,x))])
      return uv if np.all(np.isfinite(uv)) else [0, 0]  # Stop if out of bounds
  \<close>
\<close>

definition velocity_field :: "interp \<Rightarrow> interp \<Rightarrow> interp \<Rightarrow> fl \<Rightarrow> point \<Rightarrow> point" where
  "velocity_field U_interp V_interp normalizer t xy =
     (case xy of (x, y) \<Rightarrow>
        let uv = (fdiv (U_interp (y, x)) (normalizer (y, x)),
                  fdiv (V_interp (y, x)) (normalizer (y, x)))
        in if isfinite (fst uv) \<and> isfinite (snd uv) then uv else (Fin 0, Fin 0))"

section \<open>The interpolator\<close>

text \<open>
  \<^verbatim>\<open>RegularGridInterpolator(points, values, bounds_error=False, fill_value=None)\<close> is
  SciPy's. \<open>streamline\<close> takes the constructor as a parameter; the definitions of this
  section model it as SciPy documents it, for the claims about sampling. The constructor
  raises \<^verbatim>\<open>ValueError\<close> unless every axis is strictly ascending or strictly descending
  (a descending axis is flipped, with the values along it) and the shape of the values is
  the lengths of the axes. With \<^verbatim>\<open>bounds_error=False\<close> a call never raises, and
  with \<^verbatim>\<open>fill_value=None\<close> "values outside the domain are extrapolated": the linear
  method uses the formula of the nearest cell with normalised distances outside
  \<open>[0, 1]\<close>. A point with a NaN coordinate gives NaN.
\<close>

fun ascending :: "fl list \<Rightarrow> bool" where
  "ascending (a # b # rest) = (fless a b \<and> ascending (b # rest))"
| "ascending p = True"

fun descending :: "fl list \<Rightarrow> bool" where
  "descending (a # b # rest) = (fless b a \<and> descending (b # rest))"
| "descending p = True"

definition shape_ok :: "fl list \<times> fl list \<Rightarrow> array2 \<Rightarrow> bool" where
  "shape_ok points values =
     (length values = length (fst points) \<and>
      list_all (\<lambda>row. length row = length (snd points)) values)"

text \<open>
  The cell of a coordinate on an ascending axis: the index \<open>i\<close> with
  \<open>grid[i] \<le> v < grid[i + 1]\<close>, the first cell below the axis and the last cell above it.
\<close>

fun find_interval :: "fl list \<Rightarrow> fl \<Rightarrow> nat" where
  "find_interval (a # b # c # rest) v =
     (if fless v b then 0 else Suc (find_interval (b # c # rest) v))"
| "find_interval grid v = 0"

text \<open>A read of an array; outside the array (an axis with fewer than two points has no
  cell, and SciPy's result there is not defined) the model reads NaN.\<close>

definition item :: "fl list \<Rightarrow> nat \<Rightarrow> fl" where
  "item xs i = (if i < length xs then xs ! i else NaN)"

definition item2 :: "array2 \<Rightarrow> nat \<Rightarrow> nat \<Rightarrow> fl" where
  "item2 values i j = (if i < length values then item (values ! i) j else NaN)"

definition norm_distance :: "fl list \<Rightarrow> nat \<Rightarrow> fl \<Rightarrow> fl" where
  "norm_distance grid i v = fdiv (fsub v (item grid i)) (fsub (item grid (Suc i)) (item grid i))"

text \<open>
  The linear method in two dimensions, as SciPy writes it:
  \<^verbatim>\<open>
  values[i0, i1] * (1 - y0) * (1 - y1) + values[i0, i1 + 1] * (1 - y0) * y1 +
  values[i0 + 1, i1] * y0 * (1 - y1) + values[i0 + 1, i1 + 1] * y0 * y1
  \<close>
\<close>

definition interp_call :: "fl list \<times> fl list \<Rightarrow> array2 \<Rightarrow> interp" where
  "interp_call grid values yx =
     (case yx of (y, x) \<Rightarrow>
        if isnan y \<or> isnan x then NaN
        else
          let i0 = find_interval (fst grid) y;
              i1 = find_interval (snd grid) x;
              y0 = norm_distance (fst grid) i0 y;
              y1 = norm_distance (snd grid) i1 x
          in fadd (fadd (fadd
               (fmul (fmul (item2 values i0 i1) (fsub (Fin 1) y0)) (fsub (Fin 1) y1))
               (fmul (fmul (item2 values i0 (Suc i1)) (fsub (Fin 1) y0)) y1))
               (fmul (fmul (item2 values (Suc i0) i1) y0) (fsub (Fin 1) y1)))
               (fmul (fmul (item2 values (Suc i0) (Suc i1)) y0) y1))"

definition RegularGridInterpolator :: rgi where
  "RegularGridInterpolator points values =
     (case points of (p0, p1) \<Rightarrow>
        if \<not> (ascending p0 \<or> descending p0) then Inl ValueError
        else if \<not> (ascending p1 \<or> descending p1) then Inl ValueError
        else if \<not> shape_ok points values then Inl ValueError
        else
          let flip0 = \<not> ascending p0; flip1 = \<not> ascending p1;
              g0 = (if flip0 then rev p0 else p0);
              g1 = (if flip1 then rev p1 else p1);
              v0 = (if flip0 then rev values else values);
              v1 = (if flip1 then map rev v0 else v0)
          in Inr (interp_call (g0, g1) v1))"

section \<open>The streamline\<close>

text \<open>\<^verbatim>\<open>Y[:, 0]\<close> and \<^verbatim>\<open>X[0, :]\<close>: an index outside the array raises
  \<^verbatim>\<open>IndexError\<close>. A two-dimensional array is the list of its rows.\<close>

definition col0 :: "array2 \<Rightarrow> error + fl list" where
  "col0 Y = (if [] \<in> set Y then Inl IndexError else Inr (map hd Y))"

definition row0 :: "array2 \<Rightarrow> error + fl list" where
  "row0 X = (case X of [] \<Rightarrow> Inl IndexError | r # rs \<Rightarrow> Inr r)"

definition grid_axes :: "array2 \<Rightarrow> array2 \<Rightarrow> error + fl list \<times> fl list" where
  "grid_axes X Y = and_then (col0 Y) (\<lambda>ys. and_then (row0 X) (\<lambda>xs. Inr (ys, xs)))"

text \<open>\<^verbatim>\<open>np.sqrt(U**2+V**2)\<close>, element by element.\<close>

definition speed :: "array2 \<Rightarrow> array2 \<Rightarrow> array2" where
  "speed U V = map2 (map2 (\<lambda>u v. fsqrt (fadd (fmul u u) (fmul v v)))) U V"

text \<open>
  \<^verbatim>\<open>np.linspace(start, stop, num)\<close>: \<open>num\<close> evenly spaced samples, the last one
  \<open>stop\<close> itself; a negative \<open>num\<close> raises \<^verbatim>\<open>ValueError\<close>.
\<close>

definition linspace :: "fl \<Rightarrow> fl \<Rightarrow> int \<Rightarrow> error + fl list" where
  "linspace start stop num =
     (if num < 0 then Inl ValueError
      else if num = 0 then Inr []
      else if num = 1 then Inr [fadd (fmul (Fin 0) (fsub stop start)) start]
      else
        let step = fdiv (fsub stop start) (Fin (real_of_int (num - 1)))
        in Inr (map (\<lambda>i. fadd (fmul (Fin (real i)) step) start) [0..<nat (num - 1)] @ [stop]))"

text \<open>
  \<^verbatim>\<open>
  def streamline(X, Y, U, V, start_point, t_max=100000, max_points=10000, method='LSODA',
                 normalize_velocity=False):
      U_interp = RegularGridInterpolator((Y[:, 0], X[0, :]), U, bounds_error=False, fill_value=None)
      V_interp = RegularGridInterpolator((Y[:, 0], X[0, :]), V, bounds_error=False, fill_value=None)
      if normalize_velocity:
          normalizer = RegularGridInterpolator((Y[:, 0], X[0, :]), np.sqrt(U**2+V**2), ...)
      else:
          normalizer = lambda xy : 1.0
      ...
      t_eval_fwd = np.linspace(0, t_max, max_points)
      t_eval_bwd = np.linspace(0, -t_max, max_points)
      sol_fwd = solve_ivp(velocity_field, [0, t_max], start_point, method=method, t_eval=t_eval_fwd)
      fwd_points = np.column_stack((sol_fwd.y[0], sol_fwd.y[1]))
      sol_bwd = solve_ivp(velocity_field, [0, -t_max], start_point, method=method, t_eval=t_eval_bwd)
      bwd_points = np.column_stack((sol_bwd.y[0], sol_bwd.y[1]))
      streamline_points = np.vstack((bwd_points[::-1], fwd_points[1:]))
      return streamline_points
  \<close>
  The two SciPy entry points are the parameters \<open>rgi\<close> and \<open>solve_ivp\<close>.
\<close>

definition streamline ::
  "rgi \<Rightarrow> solver \<Rightarrow> array2 \<Rightarrow> array2 \<Rightarrow> array2 \<Rightarrow> array2 \<Rightarrow> point \<Rightarrow> fl \<Rightarrow> int \<Rightarrow> string \<Rightarrow> bool
     \<Rightarrow> error + point list" where
  "streamline rgi solve_ivp X Y U V start_point t_max max_points method normalize_velocity =
     and_then (grid_axes X Y) (\<lambda>axes.
     and_then (rgi axes U) (\<lambda>U_interp.
     and_then (rgi axes V) (\<lambda>V_interp.
     and_then (if normalize_velocity then rgi axes (speed U V) else Inr (\<lambda>xy. Fin 1))
       (\<lambda>normalizer.
     and_then (linspace (Fin 0) t_max max_points) (\<lambda>t_eval_fwd.
     and_then (linspace (Fin 0) (fneg t_max) max_points) (\<lambda>t_eval_bwd.
     and_then (solve_ivp (velocity_field U_interp V_interp normalizer) (Fin 0, t_max)
                 start_point method t_eval_fwd) (\<lambda>fwd_points.
     and_then (solve_ivp (velocity_field U_interp V_interp normalizer) (Fin 0, fneg t_max)
                 start_point method t_eval_bwd) (\<lambda>bwd_points.
     Inr (rev bwd_points @ drop 1 fwd_points)))))))))"

section \<open>Finite fields on ascending grids\<close>





section \<open>Predicates of the statements\<close>

text \<open>A field that is zero at every lattice point, and the values an interpolator can
  return on it: zero, or NaN where a weight is not finite.\<close>

definition zero_array :: "array2 \<Rightarrow> bool" where
  "zero_array A = list_all (list_all (\<lambda>a. a = Fin 0)) A"

definition zero_or_nan :: "fl \<Rightarrow> bool" where
  "zero_or_nan a = (a = Fin 0 \<or> a = NaN)"

text \<open>
  What the zero-field statement needs of the solver: on a right-hand side that is zero
  everywhere, sampled at finite times from a finite start time, every state it returns is
  the initial state.
\<close>

definition constant_on_stall :: "solver \<Rightarrow> bool" where
  "constant_on_stall solve_ivp =
     (\<forall>f t_span y0 method t_eval pts.
        (\<forall>t xy. f t xy = (Fin 0, Fin 0)) \<longrightarrow> isfinite (fst t_span) \<longrightarrow>
        list_all isfinite t_eval \<longrightarrow> solve_ivp f t_span y0 method t_eval = Inr pts \<longrightarrow>
        list_all (\<lambda>p. p = y0) pts)"


section \<open>A reference integrator for closed instances\<close>

text \<open>
  SciPy's adaptive solvers are not modelled. Where a statement below is instantiated at a
  concrete input, the solver parameter is this integrator with \<^verbatim>\<open>solve_ivp\<close>'s calling
  convention: it evaluates the right-hand side once, at the seed, and takes one explicit
  Euler step from the start of the time span to each sampled time. It is exact for a
  uniform field.
\<close>

definition one_step_solver :: solver where
  "one_step_solver f t_span y0 method t_eval =
     (case f (fst t_span) y0 of (u, v) \<Rightarrow>
        Inr (map (\<lambda>t. (fadd (fst y0) (fmul (fsub t (fst t_span)) u),
                        fadd (snd y0) (fmul (fsub t (fst t_span)) v))) t_eval))"

section \<open>The stall convention\<close>

lemma fdiv_zero_not_finite: "\<not> isfinite (fdiv a (Fin 0))"
  by (cases a) (simp_all add: signed_inf_def)

lemma fdiv_not_finite: "\<not> isfinite a \<Longrightarrow> \<not> isfinite (fdiv a b)"
  by (cases a; cases b) (simp_all add: signed_inf_def)

text \<open>
  Claim C3. Under normalization the normalizer is the interpolated speed. At every point
  where it is exactly zero, both quotients are non-finite (an infinity for a non-zero
  numerator, NaN for a zero one), and the velocity function returns the zero vector: no
  error is raised and no non-finite value reaches the solver. The statement holds for
  every pair of interpolators and every normalizer.
\<close>

theorem velocity_field_stagnation:
  "normalizer (y, x) = Fin 0 \<Longrightarrow>
   velocity_field U_interp V_interp normalizer t (x, y) = (Fin 0, Fin 0)"
  using fdiv_zero_not_finite [of "U_interp (y, x)"]
  by (simp add: velocity_field_def Let_def)

lemma speed_example:
  "speed [[Fin 0, Fin 1], [Fin 0, Fin 1]] [[Fin 0, Fin 0], [Fin 0, Fin 0]] =
   [[Fin 0, Fin 1], [Fin 0, Fin 1]]"
  by (simp add: speed_def)

theorem velocity_field_stagnation_witness:
  "interp_call ([Fin 0, Fin 1], [Fin 0, Fin 1])
     (speed [[Fin 0, Fin 1], [Fin 0, Fin 1]] [[Fin 0, Fin 0], [Fin 0, Fin 0]])
     (Fin (1 / 2), Fin 0) = Fin 0 \<and>
   velocity_field
     (interp_call ([Fin 0, Fin 1], [Fin 0, Fin 1]) [[Fin 0, Fin 1], [Fin 0, Fin 1]])
     (interp_call ([Fin 0, Fin 1], [Fin 0, Fin 1]) [[Fin 0, Fin 0], [Fin 0, Fin 0]])
     (interp_call ([Fin 0, Fin 1], [Fin 0, Fin 1])
        (speed [[Fin 0, Fin 1], [Fin 0, Fin 1]] [[Fin 0, Fin 0], [Fin 0, Fin 0]]))
     (Fin 0) (Fin 0, Fin (1 / 2)) = (Fin 0, Fin 0)"
proof -
  have z: "interp_call ([Fin 0, Fin 1], [Fin 0, Fin 1])
     (speed [[Fin 0, Fin 1], [Fin 0, Fin 1]] [[Fin 0, Fin 0], [Fin 0, Fin 0]])
     (Fin (1 / 2), Fin 0) = Fin 0"
    by (simp add: speed_example interp_call_def norm_distance_def item_def item2_def fsub_def)
  show ?thesis
    using z velocity_field_stagnation [of
        "interp_call ([Fin 0, Fin 1], [Fin 0, Fin 1])
           (speed [[Fin 0, Fin 1], [Fin 0, Fin 1]] [[Fin 0, Fin 0], [Fin 0, Fin 0]])"
        "Fin (1 / 2)" "Fin 0"
        "interp_call ([Fin 0, Fin 1], [Fin 0, Fin 1]) [[Fin 0, Fin 1], [Fin 0, Fin 1]]"
        "interp_call ([Fin 0, Fin 1], [Fin 0, Fin 1]) [[Fin 0, Fin 0], [Fin 0, Fin 0]]"
        "Fin 0"]
    by simp
qed

text \<open>
  Claim C9. Whenever an interpolated component is non-finite, or a quotient by the
  normalizer is, the velocity function returns the zero vector. The interpolators are
  arbitrary, so this covers a NaN read from the arrays inside the domain as well as the
  domain's edge and a stagnation point.
\<close>

theorem velocity_field_non_finite:
  "\<not> isfinite (U_interp (y, x)) \<or> \<not> isfinite (V_interp (y, x)) \<or>
   \<not> isfinite (fdiv (U_interp (y, x)) (normalizer (y, x))) \<or>
   \<not> isfinite (fdiv (V_interp (y, x)) (normalizer (y, x))) \<Longrightarrow>
   velocity_field U_interp V_interp normalizer t (x, y) = (Fin 0, Fin 0)"
  using fdiv_not_finite [of "U_interp (y, x)" "normalizer (y, x)"]
    fdiv_not_finite [of "V_interp (y, x)" "normalizer (y, x)"]
  by (auto simp add: velocity_field_def Let_def)

theorem velocity_field_non_finite_witness:
  "interp_call ([Fin 0, Fin 1], [Fin 0, Fin 1]) [[NaN, Fin 1], [Fin 1, Fin 1]]
     (Fin (1 / 2), Fin (1 / 2)) = NaN \<and>
   velocity_field
     (interp_call ([Fin 0, Fin 1], [Fin 0, Fin 1]) [[NaN, Fin 1], [Fin 1, Fin 1]])
     (interp_call ([Fin 0, Fin 1], [Fin 0, Fin 1]) [[Fin 1, Fin 1], [Fin 1, Fin 1]])
     (\<lambda>yx. Fin 1) (Fin 0) (Fin (1 / 2), Fin (1 / 2)) = (Fin 0, Fin 0)"
proof -
  have n: "interp_call ([Fin 0, Fin 1], [Fin 0, Fin 1]) [[NaN, Fin 1], [Fin 1, Fin 1]]
     (Fin (1 / 2), Fin (1 / 2)) = NaN"
    by (simp add: interp_call_def norm_distance_def item_def item2_def fsub_def)
  have "\<not> isfinite (interp_call ([Fin 0, Fin 1], [Fin 0, Fin 1]) [[NaN, Fin 1], [Fin 1, Fin 1]]
     (Fin (1 / 2), Fin (1 / 2)))"
    by (simp add: n)
  then show ?thesis
    using n velocity_field_non_finite [of
        "interp_call ([Fin 0, Fin 1], [Fin 0, Fin 1]) [[NaN, Fin 1], [Fin 1, Fin 1]]"
        "Fin (1 / 2)" "Fin (1 / 2)"
        "interp_call ([Fin 0, Fin 1], [Fin 0, Fin 1]) [[Fin 1, Fin 1], [Fin 1, Fin 1]]"
        "\<lambda>yx. Fin 1" "Fin 0"]
    by simp
qed

section \<open>Assembly of the two runs\<close>

lemma and_then_Inr: "and_then r k = Inr v \<longleftrightarrow> (\<exists>a. r = Inr a \<and> k a = Inr v)"
  by (cases r) (simp_all add: and_then_def)

lemma streamline_Inr:
  "streamline rgi solve_ivp X Y U V start_point t_max max_points method nv = Inr pts \<longleftrightarrow>
   (\<exists>axes U_interp V_interp normalizer t_eval_fwd t_eval_bwd fwd bwd.
      grid_axes X Y = Inr axes \<and> rgi axes U = Inr U_interp \<and> rgi axes V = Inr V_interp \<and>
      (if nv then rgi axes (speed U V) else Inr (\<lambda>xy. Fin 1)) = Inr normalizer \<and>
      linspace (Fin 0) t_max max_points = Inr t_eval_fwd \<and>
      linspace (Fin 0) (fneg t_max) max_points = Inr t_eval_bwd \<and>
      solve_ivp (velocity_field U_interp V_interp normalizer) (Fin 0, t_max)
        start_point method t_eval_fwd = Inr fwd \<and>
      solve_ivp (velocity_field U_interp V_interp normalizer) (Fin 0, fneg t_max)
        start_point method t_eval_bwd = Inr bwd \<and>
      pts = rev bwd @ drop 1 fwd)"
  unfolding streamline_def and_then_Inr by blast


text \<open>The uniform field \<open>U = 1\<close>, \<open>V = 0\<close> on the square \<open>[0, 4] \<times> [0, 4]\<close>, seed
  \<open>(2, 2)\<close>, duration 1 and three samples per run.\<close>

lemma uniform_field_example:
  "streamline RegularGridInterpolator one_step_solver
     [[Fin 0, Fin 4], [Fin 0, Fin 4]] [[Fin 0, Fin 0], [Fin 4, Fin 4]]
     [[Fin 1, Fin 1], [Fin 1, Fin 1]] [[Fin 0, Fin 0], [Fin 0, Fin 0]]
     (Fin 2, Fin 2) (Fin 1) 3 ''LSODA'' False
   = Inr [(Fin 1, Fin 2), (Fin (3 / 2), Fin 2), (Fin 2, Fin 2), (Fin (5 / 2), Fin 2),
          (Fin 3, Fin 2)]"
  by (simp add: streamline_def and_then_def grid_axes_def col0_def row0_def
      RegularGridInterpolator_def shape_ok_def linspace_def fsub_def Let_def upt_rec
      one_step_solver_def velocity_field_def interp_call_def norm_distance_def item_def
      item2_def)



section \<open>Dependence on the mesh arrays\<close>

text \<open>
  Claim C10. \<open>streamline\<close> reads the mesh arrays only through \<^verbatim>\<open>X[0, :]\<close> and
  \<^verbatim>\<open>Y[:, 0]\<close>: two calls whose \<open>X\<close> agree on row 0, whose \<open>Y\<close> agree on column 0
  and whose other arguments are the same have the same outcome, whatever the other
  entries of \<open>X\<close> and \<open>Y\<close> are.
\<close>

theorem streamline_mesh_row_column:
  "row0 X = row0 X' \<Longrightarrow> col0 Y = col0 Y' \<Longrightarrow>
   streamline rgi solve_ivp X Y U V start_point t_max max_points method nv =
   streamline rgi solve_ivp X' Y' U V start_point t_max max_points method nv"
  by (simp add: streamline_def grid_axes_def)

theorem streamline_mesh_row_column_witness:
  "row0 [[Fin 0, Fin 4], [Fin 7, Fin 9]] = row0 [[Fin 0, Fin 4], [Fin 0, Fin 4]] \<and>
   col0 [[Fin 0, Fin 5], [Fin 4, Fin 6]] = col0 [[Fin 0, Fin 0], [Fin 4, Fin 4]] \<and>
   streamline RegularGridInterpolator one_step_solver
     [[Fin 0, Fin 4], [Fin 7, Fin 9]] [[Fin 0, Fin 5], [Fin 4, Fin 6]]
     [[Fin 1, Fin 1], [Fin 1, Fin 1]] [[Fin 0, Fin 0], [Fin 0, Fin 0]]
     (Fin 2, Fin 2) (Fin 1) 3 ''LSODA'' False
   = Inr [(Fin 1, Fin 2), (Fin (3 / 2), Fin 2), (Fin 2, Fin 2), (Fin (5 / 2), Fin 2),
          (Fin 3, Fin 2)]"
proof -
  have r: "row0 [[Fin 0, Fin 4], [Fin 7, Fin 9]] = row0 [[Fin 0, Fin 4], [Fin 0, Fin 4]]"
    by (simp add: row0_def)
  have c: "col0 [[Fin 0, Fin 5], [Fin 4, Fin 6]] = col0 [[Fin 0, Fin 0], [Fin 4, Fin 4]]"
    by (simp add: col0_def)
  show ?thesis
    using r c streamline_mesh_row_column [OF r c, of RegularGridInterpolator one_step_solver
        "[[Fin 1, Fin 1], [Fin 1, Fin 1]]" "[[Fin 0, Fin 0], [Fin 0, Fin 0]]"
        "(Fin 2, Fin 2)" "Fin 1" 3 "''LSODA''" False]
      uniform_field_example
    by simp
qed

section \<open>Sampling outside the domain\<close>



























section \<open>A seed outside the domain\<close>

text \<open>
  Claim C5 fails on the code. For the uniform field \<open>U = 1\<close>, \<open>V = 0\<close> on the square
  \<open>[0, 4] \<times> [0, 4]\<close> and the seed \<open>(6, 2)\<close>, strictly outside the square, the
  interpolators extrapolate finite values, the fallback of \<open>velocity_field\<close> is not taken
  and the velocity at the seed is \<open>(1, 0)\<close>; with the reference integrator the trajectory
  runs from \<open>(5, 2)\<close> to \<open>(7, 2)\<close>.
\<close>

theorem outside_seed_velocity:
  "RegularGridInterpolator ([Fin 0, Fin 4], [Fin 0, Fin 4]) [[Fin 1, Fin 1], [Fin 1, Fin 1]] =
     Inr (interp_call ([Fin 0, Fin 4], [Fin 0, Fin 4]) [[Fin 1, Fin 1], [Fin 1, Fin 1]]) \<and>
   velocity_field
     (interp_call ([Fin 0, Fin 4], [Fin 0, Fin 4]) [[Fin 1, Fin 1], [Fin 1, Fin 1]])
     (interp_call ([Fin 0, Fin 4], [Fin 0, Fin 4]) [[Fin 0, Fin 0], [Fin 0, Fin 0]])
     (\<lambda>xy. Fin 1) (Fin 0) (Fin 6, Fin 2) = (Fin 1, Fin 0) \<and>
   streamline RegularGridInterpolator one_step_solver
     [[Fin 0, Fin 4], [Fin 0, Fin 4]] [[Fin 0, Fin 0], [Fin 4, Fin 4]]
     [[Fin 1, Fin 1], [Fin 1, Fin 1]] [[Fin 0, Fin 0], [Fin 0, Fin 0]]
     (Fin 6, Fin 2) (Fin 1) 3 ''LSODA'' False
   = Inr [(Fin 5, Fin 2), (Fin (11 / 2), Fin 2), (Fin 6, Fin 2), (Fin (13 / 2), Fin 2),
          (Fin 7, Fin 2)]"
  by (simp add: streamline_def and_then_def grid_axes_def col0_def row0_def
      RegularGridInterpolator_def shape_ok_def linspace_def fsub_def Let_def upt_rec
      one_step_solver_def velocity_field_def interp_call_def norm_distance_def item_def
      item2_def)

section \<open>The zero field\<close>

lemma zero_or_nan_fmul: "zero_or_nan a \<Longrightarrow> zero_or_nan (fmul a w)"
  by (cases w) (auto simp add: zero_or_nan_def)

lemma zero_or_nan_fadd: "zero_or_nan a \<Longrightarrow> zero_or_nan b \<Longrightarrow> zero_or_nan (fadd a b)"
  by (auto simp add: zero_or_nan_def)

lemma zero_array_item2: "zero_array A \<Longrightarrow> zero_or_nan (item2 A i j)"
  by (auto simp add: zero_array_def item2_def item_def zero_or_nan_def list_all_length)

lemma zero_array_interp_call:
  assumes "zero_array A"
  shows "zero_or_nan (interp_call grid A yx)"
proof (cases yx)
  case (Pair y x)
  show ?thesis
    unfolding interp_call_def Pair
    by (simp add: Let_def zero_or_nan_fadd zero_or_nan_fmul zero_array_item2 [OF assms])
      (simp add: zero_or_nan_def)
qed

lemma zero_array_flip: "zero_array A \<Longrightarrow> zero_array (rev A)" "zero_array A \<Longrightarrow> zero_array (map rev A)"
  by (auto simp add: zero_array_def list_all_iff)

lemma zero_array_constructed:
  assumes "zero_array A" "RegularGridInterpolator points A = Inr I"
  shows "zero_or_nan (I yx)"
proof -
  obtain p0 p1 where p: "points = (p0, p1)" by (cases points)
  from assms(2) obtain g B where "I = interp_call g B" "zero_array B"
    unfolding RegularGridInterpolator_def p
    using zero_array_flip assms(1)
    by (auto simp add: Let_def split: if_splits)
  then show ?thesis using zero_array_interp_call by simp
qed

lemma zero_array_speed: "zero_array U \<Longrightarrow> zero_array V \<Longrightarrow> zero_array (speed U V)"
  by (fastforce simp add: zero_array_def speed_def list_all_iff dest!: set_zip_leftD set_zip_rightD
        elim!: in_set_zipE)

lemma fadd_zero_right: "fadd a (Fin 0) = a"
  by (cases a) simp_all

lemma one_step_solver_constant: "constant_on_stall one_step_solver"
  unfolding constant_on_stall_def
proof (intro allI impI)
  fix f :: ode_fun and t_span :: "fl \<times> fl" and y0 :: point and label :: string
    and t_eval :: "fl list" and pts :: "point list"
  assume z: "\<forall>t xy. f t xy = (Fin 0, Fin 0)" and t0: "isfinite (fst t_span)"
    and te: "list_all isfinite t_eval"
    and r: "one_step_solver f t_span y0 label t_eval = Inr pts"
  obtain a where a: "fst t_span = Fin a" using t0 by (cases "fst t_span") simp_all
  have step: "(fadd (fst y0) (fmul (fsub t (Fin a)) (Fin 0)),
               fadd (snd y0) (fmul (fsub t (Fin a)) (Fin 0))) = y0"
    if "isfinite t" for t
    using that by (cases t) (simp_all add: fsub_def fadd_zero_right)
  have "pts = map (\<lambda>t. (fadd (fst y0) (fmul (fsub t (Fin a)) (Fin 0)),
                         fadd (snd y0) (fmul (fsub t (Fin a)) (Fin 0)))) t_eval"
    using r z by (simp add: one_step_solver_def a)
  then show "list_all (\<lambda>p. p = y0) pts"
    using te step by (simp add: list_all_iff)
qed

lemma linspace_finite:
  assumes "isfinite stop" "linspace (Fin 0) stop num = Inr ts"
  shows "list_all isfinite ts"
proof -
  obtain b where b: "stop = Fin b" using assms(1) by (cases stop) simp_all
  show ?thesis
    using assms(2) unfolding linspace_def b
    by (auto simp add: fsub_def Let_def list_all_iff split: if_splits)
qed

lemma stalled_velocity:
  assumes "zero_or_nan (U_interp (y, x))" "zero_or_nan (V_interp (y, x))"
    and "normalizer (y, x) = Fin 1 \<or> zero_or_nan (normalizer (y, x))"
  shows "velocity_field U_interp V_interp normalizer t (x, y) = (Fin 0, Fin 0)"
  using assms by (auto simp add: velocity_field_def Let_def zero_or_nan_def)

text \<open>
  Claim C6. For a field that is zero at every lattice point, with or without
  normalization, the velocity function is zero at every point and time (a zero value, or
  the fallback on a non-finite quotient such as \<open>0 / 0\<close>); so, with a solver that returns
  the initial state on a zero right-hand side and a finite duration, every point of the
  returned trajectory is the seed, for every seed and every sample count.
\<close>

theorem zero_field_collapses:
  assumes solver: "constant_on_stall solve_ivp"
    and U: "zero_array U" and V: "zero_array V" and t_max: "isfinite t_max"
    and run: "streamline RegularGridInterpolator solve_ivp X Y U V start_point t_max max_points
                method normalize_velocity = Inr pts"
  shows "list_all (\<lambda>p. p = start_point) pts"
proof -
  from run obtain axes U_interp V_interp normalizer t_eval_fwd t_eval_bwd fwd bwd where
    cu: "RegularGridInterpolator axes U = Inr U_interp" and
    cv: "RegularGridInterpolator axes V = Inr V_interp" and
    cn: "(if normalize_velocity then RegularGridInterpolator axes (speed U V)
          else Inr (\<lambda>xy. Fin 1)) = Inr normalizer" and
    tf: "linspace (Fin 0) t_max max_points = Inr t_eval_fwd" and
    tb: "linspace (Fin 0) (fneg t_max) max_points = Inr t_eval_bwd" and
    rf: "solve_ivp (velocity_field U_interp V_interp normalizer) (Fin 0, t_max)
           start_point method t_eval_fwd = Inr fwd" and
    rb: "solve_ivp (velocity_field U_interp V_interp normalizer) (Fin 0, fneg t_max)
           start_point method t_eval_bwd = Inr bwd" and
    pts: "pts = rev bwd @ drop 1 fwd"
    unfolding streamline_Inr by blast
  have n: "normalizer yx = Fin 1 \<or> zero_or_nan (normalizer yx)" for yx
  proof (cases normalize_velocity)
    case True
    then show ?thesis
      using cn zero_array_constructed [OF zero_array_speed [OF U V]] by simp
  next
    case False
    then show ?thesis using cn by auto
  qed
  have stall: "\<forall>t xy. velocity_field U_interp V_interp normalizer t xy = (Fin 0, Fin 0)"
  proof (intro allI)
    fix t :: fl and xy :: point
    obtain x y where xy: "xy = (x, y)" by (cases xy)
    show "velocity_field U_interp V_interp normalizer t xy = (Fin 0, Fin 0)"
      unfolding xy
      by (rule stalled_velocity [OF zero_array_constructed [OF U cu]
            zero_array_constructed [OF V cv] n])
  qed
  have nt: "isfinite (fneg t_max)" using t_max by (cases t_max) simp_all
  have f: "list_all (\<lambda>p. p = start_point) fwd"
    using solver stall linspace_finite [OF t_max tf] rf
    unfolding constant_on_stall_def by (metis fst_conv isfinite.simps(1))
  have b: "list_all (\<lambda>p. p = start_point) bwd"
    using solver stall linspace_finite [OF nt tb] rb
    unfolding constant_on_stall_def by (metis fst_conv isfinite.simps(1))
  show ?thesis
    using f b unfolding pts by (auto simp add: list_all_iff dest: in_set_dropD)
qed

lemma zero_field_example:
  "streamline RegularGridInterpolator one_step_solver
     [[Fin 0, Fin 4], [Fin 0, Fin 4]] [[Fin 0, Fin 0], [Fin 4, Fin 4]]
     [[Fin 0, Fin 0], [Fin 0, Fin 0]] [[Fin 0, Fin 0], [Fin 0, Fin 0]]
     (Fin 1, Fin 3) (Fin 1) 3 ''LSODA'' True
   = Inr [(Fin 1, Fin 3), (Fin 1, Fin 3), (Fin 1, Fin 3), (Fin 1, Fin 3), (Fin 1, Fin 3)]"
  by (simp add: streamline_def and_then_def grid_axes_def col0_def row0_def speed_def
      RegularGridInterpolator_def shape_ok_def linspace_def fsub_def Let_def upt_rec
      one_step_solver_def velocity_field_def interp_call_def norm_distance_def item_def
      item2_def)

theorem zero_field_collapses_witness:
  "constant_on_stall one_step_solver \<and>
   zero_array [[Fin 0, Fin 0], [Fin 0, Fin 0]] \<and> isfinite (Fin 1) \<and>
   streamline RegularGridInterpolator one_step_solver
     [[Fin 0, Fin 4], [Fin 0, Fin 4]] [[Fin 0, Fin 0], [Fin 4, Fin 4]]
     [[Fin 0, Fin 0], [Fin 0, Fin 0]] [[Fin 0, Fin 0], [Fin 0, Fin 0]]
     (Fin 1, Fin 3) (Fin 1) 3 ''LSODA'' True
   = Inr [(Fin 1, Fin 3), (Fin 1, Fin 3), (Fin 1, Fin 3), (Fin 1, Fin 3), (Fin 1, Fin 3)] \<and>
   list_all (\<lambda>p. p = (Fin 1, Fin 3))
     [(Fin 1, Fin 3), (Fin 1, Fin 3), (Fin 1, Fin 3), (Fin 1, Fin 3), (Fin 1, Fin 3)]"
proof -
  have z: "zero_array [[Fin 0, Fin 0], [Fin 0, Fin 0]]" by (simp add: zero_array_def)
  have f: "isfinite (Fin 1)" by simp
  from zero_field_collapses [OF one_step_solver_constant z z f zero_field_example]
    one_step_solver_constant z f zero_field_example
  show ?thesis by blast
qed

section \<open>When streamline raises\<close>










end
